theory Spec2Isabelle
  imports Main "HOL-Library.Word" "HOL-Library.Char_ord" "HOL-Library.List_Lexorder"
begin

section \<open>Host runtime values\<close>

text \<open>
  The binding receives its inputs as values of the host runtime (\<open>Variant\<close>, \<open>Array\<close>,
  \<open>Object\<close>). Integers are 64-bit, a double is kept as its bit pattern, an array is the
  ordered sequence of its (key, value) entries, and an object carries the native data
  the binding attached to it together with its dynamic properties.
\<close>

type_synonym grpc_channel_credentials_ptr = nat

datatype native_data =
    NoNativeData
  | ChannelCredentialsData grpc_channel_credentials_ptr string

datatype variant =
    VNull
  | VBoolean bool
  | VInteger "64 word"
  | VDouble "64 word"
  | VString string
  | VArray "(variant \<times> variant) list"
  | VObject native_data "(string \<times> variant) list"

type_synonym array = "(variant \<times> variant) list"

fun isNull :: "variant \<Rightarrow> bool" where
  "isNull VNull = True"
| "isNull _ = False"

fun isString :: "variant \<Rightarrow> bool" where
  "isString (VString _) = True"
| "isString _ = False"

fun isInteger :: "variant \<Rightarrow> bool" where
  "isInteger (VInteger _) = True"
| "isInteger _ = False"

fun isBoolean :: "variant \<Rightarrow> bool" where
  "isBoolean (VBoolean _) = True"
| "isBoolean _ = False"

fun isArray :: "variant \<Rightarrow> bool" where
  "isArray (VArray _) = True"
| "isArray _ = False"

fun isObject :: "variant \<Rightarrow> bool" where
  "isObject (VObject _ _) = True"
| "isObject _ = False"

text \<open>
  The conversions are used by the source only behind the matching type test; the other
  cases are filled in so that the functions are total.
\<close>

fun toCppString :: "variant \<Rightarrow> string" where
  "toCppString (VString s) = s"
| "toCppString _ = []"

fun toInt32 :: "variant \<Rightarrow> 32 word" where
  "toInt32 (VInteger i) = ucast i"
| "toInt32 _ = 0"

fun toBoolean :: "variant \<Rightarrow> bool" where
  "toBoolean (VBoolean b) = b"
| "toBoolean _ = False"

fun toArray :: "variant \<Rightarrow> array" where
  "toArray (VArray a) = a"
| "toArray _ = []"

section \<open>Library routines used by the argument canonicalizer\<close>

text \<open>\<open>std::to_string(int)\<close>: the decimal digits, with a leading minus sign below zero.\<close>

fun digits :: "nat \<Rightarrow> string" where
  "digits n = (if n < 10 then [char_of (48 + n)]
               else digits (n div 10) @ [char_of (48 + n mod 10)])"

declare digits.simps [simp del]

definition to_string :: "int \<Rightarrow> string" where
  "to_string i = (if i < 0 then CHR ''-'' # digits (nat (- i)) else digits (nat i))"

text \<open>
  \<open>std::sort\<close> on a range of at most sixteen elements is, in the GNU implementation,
  a plain insertion sort: an element that the comparator puts before the first one is
  moved to the front, any other element is shifted leftwards past every element it
  compares less than. \<open>unguarded_linear_insert\<close> works on the reversed prefix, whose head
  is the element just left of the hole.

  On a longer range the library partitions first (introsort), and with a comparator
  that is not a strict weak ordering the partitioning may leave the range. That part is
  not modelled: \<open>std_sort\<close> says nothing about a range of more than sixteen elements,
  and every property that goes through the sort is stated for at most sixteen.
\<close>

fun unguarded_linear_insert :: "('a \<Rightarrow> 'a \<Rightarrow> bool) \<Rightarrow> 'a \<Rightarrow> 'a list \<Rightarrow> 'a list" where
  "unguarded_linear_insert cmp val [] = [val]"
| "unguarded_linear_insert cmp val (x # rpre) =
     (if cmp val x then x # unguarded_linear_insert cmp val rpre else val # x # rpre)"

fun insertion_sort :: "('a \<Rightarrow> 'a \<Rightarrow> bool) \<Rightarrow> 'a list \<Rightarrow> 'a list \<Rightarrow> 'a list" where
  "insertion_sort cmp pre [] = pre"
| "insertion_sort cmp [] (v # rest) = insertion_sort cmp [v] rest"
| "insertion_sort cmp (first # pre) (v # rest) =
     (if cmp v first then insertion_sort cmp (v # first # pre) rest
      else insertion_sort cmp (rev (unguarded_linear_insert cmp v (rev (first # pre)))) rest)"

definition std_sort :: "('a \<Rightarrow> 'a \<Rightarrow> bool) \<Rightarrow> 'a list \<Rightarrow> 'a list" where
  "std_sort cmp xs = (if length xs \<le> 16 then insertion_sort cmp [] xs else undefined)"

section \<open>Channel arguments\<close>

datatype grpc_arg_value = GRPC_ARG_INTEGER "32 word" | GRPC_ARG_STRING string

record grpc_arg =
  arg_key :: string
  arg_value :: grpc_arg_value

text \<open>The null \<open>args\<close> pointer is the empty list; an allocated array is never empty.\<close>

record grpc_channel_args =
  num_args :: nat
  args :: "grpc_arg list"

record ChannelArgs =
  m_ChannelArgs :: grpc_channel_args
  m_PHPData :: "(string \<times> string) list"
  m_HashKey :: string
  m_ConcatenatedArgs :: string

definition destroyArgs :: "ChannelArgs \<Rightarrow> ChannelArgs" where
  "destroyArgs s =
     s\<lparr>m_ChannelArgs := \<lparr>num_args = 0, args = []\<rparr>,
       m_PHPData := [],
       m_HashKey := [],
       m_ConcatenatedArgs := []\<rparr>"

text \<open>
  The comparator handed to \<open>std::sort\<close>, as written: it compares the key of the first
  pair with the value of the same pair, and falls back to the key and value of the
  second pair.
\<close>

definition sortLambda :: "string \<times> string \<Rightarrow> string \<times> string \<Rightarrow> bool" where
  "sortLambda pair1 pair2 =
     (let p1String1 = fst pair1; p1String2 = snd pair1
      in if p1String1 \<noteq> p1String2 then p1String1 < p1String2
         else (let p2String1 = fst pair2; p2String2 = snd pair2
               in p2String1 < p2String2))"

text \<open>
  The loop over the entries of the array. Entry number \<open>count\<close> is written when exactly
  \<open>count\<close> entries have been stored, so writing \<open>args[count]\<close> is appending. The second
  component is the vector \<open>channelArgs\<close> of references into \<open>m_PHPData\<close>; \<open>None\<close> is the
  early \<open>return false\<close>, taken after \<open>destroyArgs\<close>.
\<close>

fun init_loop ::
  "array \<Rightarrow> ChannelArgs \<Rightarrow> (string \<times> string) list
     \<Rightarrow> ChannelArgs \<times> (string \<times> string) list option" where
  "init_loop [] s channelArgs = (s, Some channelArgs)"
| "init_loop ((key, val) # rest) s channelArgs =
     (if isNull key \<or> \<not> isString key then (destroyArgs s, None)
      else
        let keyString = toCppString key
        in if \<not> isNull val then
             (if isInteger val then
                (let valueInt = toInt32 val;
                     valueString = to_string (sint valueInt);
                     s' = s\<lparr>m_PHPData := m_PHPData s @ [(keyString, valueString)],
                            m_ChannelArgs := (m_ChannelArgs s)
                              \<lparr>args := args (m_ChannelArgs s)
                                 @ [\<lparr>arg_key = keyString, arg_value = GRPC_ARG_INTEGER valueInt\<rparr>]\<rparr>\<rparr>
                 in init_loop rest s' (channelArgs @ [(keyString, valueString)]))
              else if isString val then
                (let valueString = toCppString val;
                     s' = s\<lparr>m_PHPData := m_PHPData s @ [(keyString, valueString)],
                            m_ChannelArgs := (m_ChannelArgs s)
                              \<lparr>args := args (m_ChannelArgs s)
                                 @ [\<lparr>arg_key = keyString, arg_value = GRPC_ARG_STRING valueString\<rparr>]\<rparr>\<rparr>
                 in init_loop rest s' (channelArgs @ [(keyString, valueString)]))
              else (destroyArgs s, None))
           else (destroyArgs s, None))"

definition ChannelArgs_init ::
  "(string \<Rightarrow> string) \<Rightarrow> array \<Rightarrow> ChannelArgs \<Rightarrow> bool \<times> ChannelArgs" where
  "ChannelArgs_init SHA1 argsArray s0 =
     (let s1 = destroyArgs s0;
          elements = length argsArray;
          looped = (if elements > 0
                    then init_loop argsArray
                           (s1\<lparr>m_ChannelArgs := \<lparr>num_args = elements, args = []\<rparr>\<rparr>) []
                    else (s1, Some []))
      in case looped of
           (s2, None) \<Rightarrow> (False, s2)
         | (s2, Some channelArgs) \<Rightarrow>
             (let sorted = std_sort sortLambda channelArgs;
                  s3 = foldl (\<lambda>s argPair.
                          s\<lparr>m_ConcatenatedArgs :=
                              m_ConcatenatedArgs s @ (fst argPair @ snd argPair)\<rparr>) s2 sorted
              in (True, s3\<lparr>m_HashKey := SHA1 (m_ConcatenatedArgs s3)\<rparr>)))"

definition ChannelArgs_new :: ChannelArgs where
  "ChannelArgs_new =
     \<lparr>m_ChannelArgs = \<lparr>num_args = 0, args = []\<rparr>, m_PHPData = [],
      m_HashKey = [], m_ConcatenatedArgs = []\<rparr>"

section \<open>Errors\<close>

text \<open>
  The exceptions the binding throws into the host runtime, and the \<open>std::future_error\<close>
  that \<open>std::promise::set_value\<close> throws on a promise that already holds a value.
\<close>

datatype exn =
    InvalidArgumentException string
  | BadMethodCallException string
  | future_error

section \<open>Channel data\<close>

text \<open>
  A \<open>grpc_channel*\<close> is an address, \<open>0\<close> being the null pointer. \<open>grpc_channel_destroy\<close>
  belongs to the RPC engine; the model records its calls, oldest first.
\<close>

type_synonym grpc_channel_ptr = nat

record ChannelData =
  m_pChannel :: grpc_channel_ptr
  m_Owned :: bool
  m_HashKey_data :: string

definition ChannelData_destroy ::
  "ChannelData \<Rightarrow> grpc_channel_ptr list \<Rightarrow> ChannelData \<times> grpc_channel_ptr list" where
  "ChannelData_destroy d destroyed_log =
     (if m_pChannel d \<noteq> 0
      then (d\<lparr>m_pChannel := 0\<rparr>,
            if m_Owned d then destroyed_log @ [m_pChannel d] else destroyed_log)
      else (d, destroyed_log))"

definition ChannelData_init ::
  "grpc_channel_ptr \<Rightarrow> bool \<Rightarrow> string \<Rightarrow> ChannelData \<Rightarrow> grpc_channel_ptr list
     \<Rightarrow> ChannelData \<times> grpc_channel_ptr list" where
  "ChannelData_init channel owned hashKey d destroyed_log =
     (case ChannelData_destroy d destroyed_log of
        (d', destroyed_log') \<Rightarrow>
          (d'\<lparr>m_pChannel := channel, m_Owned := owned, m_HashKey_data := hashKey\<rparr>,
           destroyed_log'))"

section \<open>Channel cache\<close>

text \<open>
  Modelled from the spec: the declaration of \<open>m_ChannelMap\<close> is in \<open>channel.h\<close>, which is
  not among the sources. The spec describes a map from a fingerprint to one handle, and
  the code reads the (iterator, inserted) pair that \<open>emplace\<close> returns on a container
  with unique keys. The map is kept as the list of its entries, a new entry going to
  the end.
\<close>

type_synonym ChannelsCache = "(string \<times> grpc_channel_ptr) list"

definition addChannel ::
  "string \<Rightarrow> grpc_channel_ptr \<Rightarrow> ChannelsCache \<Rightarrow> (bool \<times> grpc_channel_ptr) \<times> ChannelsCache" where
  "addChannel k pChannel m =
     (case map_of m k of
        Some stored \<Rightarrow> ((False, stored), m)
      | None \<Rightarrow> ((True, pChannel), m @ [(k, pChannel)]))"

definition getChannel :: "string \<Rightarrow> ChannelsCache \<Rightarrow> grpc_channel_ptr" where
  "getChannel channelHash m = (case map_of m channelHash of None \<Rightarrow> 0 | Some c \<Rightarrow> c)"

definition hasChannel :: "string \<Rightarrow> ChannelsCache \<Rightarrow> bool" where
  "hasChannel channelHash m = (getChannel channelHash m \<noteq> 0)"


definition numChannels :: "ChannelsCache \<Rightarrow> nat" where
  "numChannels m = length m"


section \<open>Channel methods\<close>

text \<open>
  What the methods call outside the binding: the hash of the host runtime and the
  channel functions of the RPC engine. A creation function returns the address of the
  new channel, or \<open>0\<close>.
\<close>

record runtime =
  SHA1 :: "string \<Rightarrow> string"
  grpc_insecure_channel_create :: "string \<Rightarrow> grpc_channel_args \<Rightarrow> grpc_channel_ptr"
  grpc_secure_channel_create ::
    "grpc_channel_credentials_ptr \<Rightarrow> string \<Rightarrow> grpc_channel_args \<Rightarrow> grpc_channel_ptr"
  grpc_channel_get_target :: "grpc_channel_ptr \<Rightarrow> string"
  grpc_channel_check_connectivity_state :: "grpc_channel_ptr \<Rightarrow> int \<Rightarrow> int"

text \<open>
  The state a method works on: the native data of the receiver, the process-wide cache
  and the record of destroyed channels.
\<close>

record state =
  this :: ChannelData
  cache :: ChannelsCache
  destroyed :: "grpc_channel_ptr list"

definition array_exists :: "variant \<Rightarrow> array \<Rightarrow> bool" where
  "array_exists k a = (map_of a k \<noteq> None)"

definition array_get :: "variant \<Rightarrow> array \<Rightarrow> variant" where
  "array_get k a = (case map_of a k of Some v \<Rightarrow> v | None \<Rightarrow> VNull)"

definition array_remove :: "variant \<Rightarrow> array \<Rightarrow> array" where
  "array_remove k a = filter (\<lambda>e. fst e \<noteq> k) a"

text \<open>
  The first block of the constructor: the \<open>credentials\<close> entry. It returns the native
  data of the credentials object, if there is one, and the array without the entry.
\<close>

definition take_credentials ::
  "array \<Rightarrow> exn + ((grpc_channel_credentials_ptr \<times> string) option \<times> array)" where
  "take_credentials argsArrayCopy =
     (let credentialsKey = VString ''credentials''
      in if array_exists credentialsKey argsArrayCopy then
           (case array_get credentialsKey argsArrayCopy of
              VObject (ChannelCredentialsData c h) props \<Rightarrow>
                Inr (Some (c, h), array_remove credentialsKey argsArrayCopy)
            | VObject NoNativeData props \<Rightarrow>
                Inl (InvalidArgumentException
                       (''credentials must be a Grpc'' @ [CHR 0x5C]
                        @ ''ChannelCredentials object''))
            | _ \<Rightarrow> Inr (None, array_remove credentialsKey argsArrayCopy))
         else Inr (None, argsArrayCopy))"

text \<open>The second block: the \<open>force_new\<close> entry.\<close>

definition take_force_new :: "array \<Rightarrow> bool \<times> array" where
  "take_force_new argsArrayCopy =
     (let forceNewKey = VString ''force_new''
      in if array_exists forceNewKey argsArrayCopy then
           (let v = array_get forceNewKey argsArrayCopy
            in (if \<not> isNull v \<and> isBoolean v then toBoolean v else False,
                array_remove forceNewKey argsArrayCopy))
         else (False, argsArrayCopy))"

text \<open>
  The creation of the underlying channel: insecure without credentials, secure with
  them.
\<close>

definition create_channel ::
  "runtime \<Rightarrow> string \<Rightarrow> ChannelArgs \<Rightarrow> (grpc_channel_credentials_ptr \<times> string) option
     \<Rightarrow> grpc_channel_ptr" where
  "create_channel rt strTarget channelArgs pChannelCredentialsData =
     (case pChannelCredentialsData of
        None \<Rightarrow> grpc_insecure_channel_create rt strTarget (m_ChannelArgs channelArgs)
      | Some (c, h) \<Rightarrow>
          grpc_secure_channel_create rt c strTarget (m_ChannelArgs channelArgs))"

text \<open>
  The constructor from the point where the cache has been read. The pointer found by
  \<open>getChannel\<close> is an argument: the read lock is released before the write lock of
  \<open>addChannel\<close> is taken, so another thread may have changed the cache in between and
  the state given here need not be the one the lookup saw.
\<close>

definition construct_from_lookup ::
  "runtime \<Rightarrow> string \<Rightarrow> ChannelArgs \<Rightarrow> (grpc_channel_credentials_ptr \<times> string) option
     \<Rightarrow> bool \<Rightarrow> string \<Rightarrow> grpc_channel_ptr \<Rightarrow> state \<Rightarrow> exn + state" where
  "construct_from_lookup rt strTarget channelArgs pChannelCredentialsData force_new
       fullCacheKey pChannel st =
     (if \<not> force_new \<and> pChannel \<noteq> 0 then
        (case ChannelData_init pChannel False fullCacheKey (this st) (destroyed st) of
           (d, l) \<Rightarrow> Inr (st\<lparr>this := d, destroyed := l\<rparr>))
      else
        (let created = create_channel rt strTarget channelArgs pChannelCredentialsData
         in if created = 0 then Inl (BadMethodCallException ''failed to create channel'')
            else
              (case addChannel fullCacheKey created (cache st) of
                 (addResult, cache') \<Rightarrow>
                   (let destroyed' = (if \<not> fst addResult then destroyed st @ [created]
                                      else destroyed st);
                        adopted = (if \<not> fst addResult then snd addResult else created)
                    in case ChannelData_init adopted False fullCacheKey (this st) destroyed' of
                         (d, l) \<Rightarrow> Inr (st\<lparr>this := d, cache := cache', destroyed := l\<rparr>)))))"

definition Channel_construct :: "runtime \<Rightarrow> string \<Rightarrow> array \<Rightarrow> state \<Rightarrow> exn + state" where
  "Channel_construct rt target args_array st =
     (case take_credentials args_array of
        Inl e \<Rightarrow> Inl e
      | Inr (pChannelCredentialsData, argsArrayCopy1) \<Rightarrow>
          (case take_force_new argsArrayCopy1 of
             (force_new, argsArrayCopy2) \<Rightarrow>
               (case ChannelArgs_init (SHA1 rt) argsArrayCopy2 ChannelArgs_new of
                  (ok, channelArgs) \<Rightarrow>
                    if \<not> ok then Inl (InvalidArgumentException ''invalid channel arguments'')
                    else
                      (let strTarget = target;
                           fullCacheKey =
                             SHA1 rt (strTarget @ m_ConcatenatedArgs channelArgs)
                             @ (case pChannelCredentialsData of
                                  None \<Rightarrow> [] | Some (c, h) \<Rightarrow> h);
                           pChannel = getChannel fullCacheKey (cache st)
                       in construct_from_lookup rt strTarget channelArgs
                            pChannelCredentialsData force_new fullCacheKey pChannel st))))"

definition Channel_getTarget :: "runtime \<Rightarrow> state \<Rightarrow> exn + string" where
  "Channel_getTarget rt st =
     (if m_pChannel (this st) = 0 then Inl (BadMethodCallException ''Channel already closed.'')
      else Inr (grpc_channel_get_target rt (m_pChannel (this st))))"

definition Channel_getConnectivityState :: "runtime \<Rightarrow> bool \<Rightarrow> state \<Rightarrow> exn + int" where
  "Channel_getConnectivityState rt try_to_connect st =
     (if m_pChannel (this st) = 0 then Inl (BadMethodCallException ''Channel already closed.'')
      else Inr (grpc_channel_check_connectivity_state rt (m_pChannel (this st))
                  (if try_to_connect then 1 else 0)))"

definition Channel_watchConnectivityState :: "state \<Rightarrow> exn + bool" where
  "Channel_watchConnectivityState st =
     (if m_pChannel (this st) = 0 then Inl (BadMethodCallException ''Channel already closed.'')
      else Inr True)"

definition Channel_close :: "state \<Rightarrow> exn + state" where
  "Channel_close st =
     (if m_pChannel (this st) = 0 then Inl (BadMethodCallException ''Channel already closed.'')
      else (case ChannelData_init 0 False [] (this st) (destroyed st) of
              (d, l) \<Rightarrow> Inr (st\<lparr>this := d, destroyed := l\<rparr>)))"

section \<open>Plugin metadata registry\<close>

text \<open>
  A \<open>CallCredentialsData*\<close> is an address and serves as the identity of a credentials
  object. A \<open>shared_ptr<MetaDataInfo>\<close> is the address of its allocation, \<open>None\<close> being
  the null pointer, and a \<open>weak_ptr\<close> remembers such an address without keeping the
  allocation alive.
\<close>

type_synonym CallCredentialsData_ptr = nat
type_synonym MetaDataInfo_ptr = nat
type_synonym weak_ptr = "MetaDataInfo_ptr option"

text \<open>
  Modelled from the spec: \<open>m_MetaDataMap\<close> is declared in \<open>call_credentials.h\<close>, which is
  not among the sources; the spec gives it as a map from the identity of a credentials
  object to a weak reference to a slot.
\<close>

type_synonym MetaDataMap = "CallCredentialsData_ptr \<rightharpoonup> weak_ptr"

definition setInfo ::
  "CallCredentialsData_ptr \<Rightarrow> MetaDataInfo_ptr option \<Rightarrow> MetaDataMap \<Rightarrow> MetaDataMap" where
  "setInfo pCallCredentials pMetaDataInfo m =
     (case m pCallCredentials of
        None \<Rightarrow> m(pCallCredentials \<mapsto> pMetaDataInfo)
      | Some existing \<Rightarrow> m(pCallCredentials \<mapsto> pMetaDataInfo))"

definition getInfo :: "CallCredentialsData_ptr \<Rightarrow> MetaDataMap \<Rightarrow> weak_ptr \<times> MetaDataMap" where
  "getInfo pCallCredentials m =
     (case m pCallCredentials of
        Some found \<Rightarrow> (found, m(pCallCredentials := None))
      | None \<Rightarrow> (None, m))"

definition deleteInfo :: "CallCredentialsData_ptr \<Rightarrow> MetaDataMap \<Rightarrow> bool \<times> MetaDataMap" where
  "deleteInfo pCallCredentials m =
     (case m pCallCredentials of
        Some found \<Rightarrow> (True, m(pCallCredentials := None))
      | None \<Rightarrow> (False, m))"

section \<open>Plugin callback dispatcher\<close>

record plugin_state =
  callback :: variant
  pCallCredentials :: CallCredentialsData_ptr

record grpc_auth_metadata_context =
  service_url :: "string option"
  method_name :: "string option"
  channel_auth_context :: nat

datatype grpc_status_code =
    GRPC_STATUS_OK
  | GRPC_STATUS_UNKNOWN
  | GRPC_STATUS_INVALID_ARGUMENT

type_synonym grpc_metadata = "string \<times> string"

text \<open>
  Modelled from the spec: the request record \<open>plugin_get_metadata_params\<close> and the slot
  \<open>MetaDataInfo\<close> are declared in \<open>call_credentials.h\<close>, which is not among the sources.
  The record carries the plugin state, the service URL, the method name, the auth
  context, the completion callback, the user data, the flag that tells a resolved
  record from an unresolved one, and the result. The source passes the last two
  explicitly (\<open>true, result\<close>) when it has run the callback itself and leaves them out
  otherwise; left out, the record is the unresolved one of the spec, whose request still
  needs to be executed on the owning thread.
\<close>

record plugin_get_metadata_params =
  p_ptr :: plugin_state
  p_contextServiceUrl :: string
  p_contextMethodName :: string
  p_context :: nat
  p_cb :: nat
  p_user_data :: nat
  p_completed :: bool
  p_result :: bool

definition unresolved_params ::
  "plugin_state \<Rightarrow> string \<Rightarrow> string \<Rightarrow> nat \<Rightarrow> nat \<Rightarrow> nat \<Rightarrow> plugin_get_metadata_params" where
  "unresolved_params ptr contextServiceUrl contextMethodName pContext cb user_data =
     \<lparr>p_ptr = ptr, p_contextServiceUrl = contextServiceUrl,
      p_contextMethodName = contextMethodName, p_context = pContext,
      p_cb = cb, p_user_data = user_data, p_completed = False, p_result = False\<rparr>"

text \<open>The slot: the promise, empty until its single fulfilment, and the owning thread.\<close>

record MetaDataInfo =
  metadataPromise :: "plugin_get_metadata_params option"
  threadId :: nat

text \<open>
  What the dispatcher observably does: a call of the user callback through the host
  runtime, and a call of the completion callback of the RPC engine with the user data,
  the metadata array (\<open>None\<close> for the null pointer), its size and the status.
\<close>

datatype event =
    UserCallback variant variant
  | CompletionCallback nat nat "grpc_metadata list option" nat grpc_status_code

text \<open>
  The host runtime as the dispatcher uses it: the call of a user function, the
  structural validation of a metadata array (\<open>MetadataArray::init\<close>, not among the
  sources; \<open>None\<close> when it returns false) and the identity of the running thread.
\<close>

record plugin_runtime =
  vm_call_user_func :: "variant \<Rightarrow> variant \<Rightarrow> variant"
  MetadataArray_init :: "array \<Rightarrow> grpc_metadata list option"
  this_thread_get_id :: nat

text \<open>
  The world of the dispatcher: the registry, the live slots by address (a slot whose
  strong references have all been released is no longer there) and the calls made so
  far.
\<close>

record plugin_world =
  m_MetaDataMap :: MetaDataMap
  slots :: "MetaDataInfo_ptr \<rightharpoonup> MetaDataInfo"
  trace :: "event list"

definition weak_lock ::
  "(MetaDataInfo_ptr \<rightharpoonup> MetaDataInfo) \<Rightarrow> weak_ptr \<Rightarrow> (MetaDataInfo_ptr \<times> MetaDataInfo) option" where
  "weak_lock live wp =
     (case wp of
        None \<Rightarrow> None
      | Some a \<Rightarrow> (case live a of None \<Rightarrow> None | Some info \<Rightarrow> Some (a, info)))"

text \<open>
  \<open>std::promise::set_value\<close> on the promise of the slot at address \<open>a\<close>, which the caller
  holds locked as \<open>info\<close>: a promise that already has its value throws.
\<close>

definition set_value ::
  "MetaDataInfo_ptr \<Rightarrow> MetaDataInfo \<Rightarrow> plugin_get_metadata_params \<Rightarrow> plugin_world
     \<Rightarrow> exn option \<times> plugin_world" where
  "set_value a info params w =
     (case metadataPromise info of
        Some already \<Rightarrow> (Some future_error, w)
      | None \<Rightarrow> (None, w\<lparr>slots := (slots w)(a \<mapsto> info\<lparr>metadataPromise := Some params\<rparr>)\<rparr>))"

text \<open>
  The argument list handed to the user callback: one object with the properties
  \<open>service_url\<close> and \<open>method_name\<close>.
\<close>

definition callback_params :: "string \<Rightarrow> string \<Rightarrow> variant" where
  "callback_params serviceURL methodName =
     (let returnObj = VObject NoNativeData
                        [(''service_url'', VString serviceURL),
                         (''method_name'', VString methodName)]
      in VArray [(VInteger 0, returnObj)])"

text \<open>The status a completion call carries.\<close>

fun completion_status :: "event \<Rightarrow> grpc_status_code option" where
  "completion_status (CompletionCallback cb user_data md n code) = Some code"
| "completion_status (UserCallback f a) = None"

definition plugin_do_get_metadata ::
  "plugin_runtime \<Rightarrow> plugin_state \<Rightarrow> string \<Rightarrow> string \<Rightarrow> nat \<Rightarrow> nat \<Rightarrow> nat \<Rightarrow> event list
     \<Rightarrow> bool \<times> event list" where
  "plugin_do_get_metadata rt ptr serviceURL methodName pContext cb user_data tr =
     (let params = callback_params serviceURL methodName;
          retVal = vm_call_user_func rt (callback ptr) params;
          tr1 = tr @ [UserCallback (callback ptr) params]
      in if isNull retVal \<or> \<not> isArray retVal then
           (let code = GRPC_STATUS_UNKNOWN
            in (code = GRPC_STATUS_OK, tr1 @ [CompletionCallback cb user_data None 0 code]))
         else
           (case MetadataArray_init rt (toArray retVal) of
              None \<Rightarrow>
                (let code = GRPC_STATUS_INVALID_ARGUMENT
                 in (code = GRPC_STATUS_OK,
                     tr1 @ [CompletionCallback cb user_data None 0 code]))
            | Some metadata \<Rightarrow>
                (let code = GRPC_STATUS_OK
                 in (code = GRPC_STATUS_OK,
                     tr1 @ [CompletionCallback cb user_data (Some metadata)
                              (length metadata) code]))))"

definition plugin_get_metadata ::
  "plugin_runtime \<Rightarrow> plugin_state \<Rightarrow> grpc_auth_metadata_context \<Rightarrow> nat \<Rightarrow> nat \<Rightarrow> plugin_world
     \<Rightarrow> exn option \<times> plugin_world" where
  "plugin_get_metadata rt ptr context cb user_data w =
     (let pCallCrendentials = pCallCredentials ptr
      in case getInfo pCallCrendentials (m_MetaDataMap w) of
           (wpMetaDataInfo, m') \<Rightarrow>
             (let w1 = w\<lparr>m_MetaDataMap := m'\<rparr>
              in case weak_lock (slots w1) wpMetaDataInfo of
                   Some (a, pMetaDataInfo) \<Rightarrow>
                     (let callThreadId = threadId pMetaDataInfo;
                          contextServiceUrl =
                            (case service_url context of Some u \<Rightarrow> u | None \<Rightarrow> []);
                          contextMethodName =
                            (case method_name context of Some n \<Rightarrow> n | None \<Rightarrow> [])
                      in if callThreadId = this_thread_get_id rt then
                           (case plugin_do_get_metadata rt ptr contextServiceUrl
                                   contextMethodName (channel_auth_context context)
                                   cb user_data (trace w1) of
                              (res, tr') \<Rightarrow>
                                set_value a pMetaDataInfo
                                  \<lparr>p_ptr = ptr, p_contextServiceUrl = contextServiceUrl,
                                   p_contextMethodName = contextMethodName,
                                   p_context = channel_auth_context context,
                                   p_cb = cb, p_user_data = user_data,
                                   p_completed = True, p_result = res\<rparr>
                                  (w1\<lparr>trace := tr'\<rparr>))
                         else
                           set_value a pMetaDataInfo
                             (unresolved_params ptr contextServiceUrl contextMethodName
                                (channel_auth_context context) cb user_data)
                             w1)
                 | None \<Rightarrow> (None, w1)))"

section \<open>Auxiliary definitions for the properties\<close>

text \<open>An entry that the loop of \<open>ChannelArgs::init\<close> accepts.\<close>

definition valid_entry :: "variant \<times> variant \<Rightarrow> bool" where
  "valid_entry e =
     (isString (fst e) \<and> \<not> isNull (snd e) \<and> (isInteger (snd e) \<or> isString (snd e)))"

text \<open>
  Sample environments for evaluating the methods on concrete inputs. The hash is opaque
  to every property below; the sample takes the identity, and its channel functions
  return fixed addresses. The sample user callback answers by its name: a well-formed
  metadata array for \<open>good\<close>, an array that fails validation for \<open>bad\<close>, null otherwise.
\<close>

definition sample_runtime :: runtime where
  "sample_runtime =
     \<lparr>SHA1 = (\<lambda>s. s),
      grpc_insecure_channel_create = (\<lambda>t a. 2),
      grpc_secure_channel_create = (\<lambda>c t a. 3),
      grpc_channel_get_target = (\<lambda>c. ''host''),
      grpc_channel_check_connectivity_state = (\<lambda>c i. 0)\<rparr>"

definition sample_plugin_runtime :: plugin_runtime where
  "sample_plugin_runtime =
     \<lparr>vm_call_user_func =
        (\<lambda>f a. if f = VString ''good''
               then VArray [(VString ''k'', VArray [(VInteger 0, VString ''v'')])]
               else if f = VString ''bad'' then VArray [(VInteger 0, VInteger 1)]
               else VNull),
      MetadataArray_init =
        (\<lambda>a. if a = [(VString ''k'', VArray [(VInteger 0, VString ''v'')])]
             then Some [(''k'', ''v'')] else None),
      this_thread_get_id = 1\<rparr>"

section \<open>Argument canonicalizer: properties\<close>

lemma destroyArgs_new: "destroyArgs (s :: ChannelArgs) = ChannelArgs_new"
  by (simp add: destroyArgs_def ChannelArgs_new_def)

lemma init_loop_invalid:
  "\<exists>e \<in> set a. \<not> valid_entry e \<Longrightarrow> init_loop a s ca = (ChannelArgs_new, None)"
proof (induction a arbitrary: s ca)
  case Nil
  then show ?case by simp
next
  case (Cons e a)
  obtain k v where e: "e = (k, v)" by (cases e)
  show ?case
  proof (cases "valid_entry e")
    case False
    then show ?thesis
      by (auto simp: e valid_entry_def destroyArgs_new Let_def)
  next
    case True
    with Cons.prems have "\<exists>e \<in> set a. \<not> valid_entry e" by auto
    then have ih: "\<And>s' ca'. init_loop a s' ca' = (ChannelArgs_new, None)"
      by (rule Cons.IH)
    from True have "isString k" "\<not> isNull k" "\<not> isNull v" "isInteger v \<or> isString v"
      by (cases k; simp add: e valid_entry_def)+
    then show ?thesis
      by (auto simp: e ih Let_def)
  qed
qed

text \<open>
  C1. The claim is that two arrays holding the same (key, value) pairs in different
  orders get the same fingerprint, the pairs being sorted by key, then value. The
  comparator of the source does not compare the two pairs with each other, and the
  result of the sort depends on the order of the input: on the two orders of the pairs
  (a, b) and (c, d) initialisation succeeds both times, but the concatenations that are
  hashed are \<open>cdab\<close> and \<open>abcd\<close>, and the first of them is not in ascending order.
\<close>

theorem ChannelArgs_init_order_dependent:
  "fst (ChannelArgs_init sha1 [(VString ''a'', VString ''b''), (VString ''c'', VString ''d'')]
          ChannelArgs_new) = True \<and>
   m_ConcatenatedArgs (snd (ChannelArgs_init sha1
      [(VString ''a'', VString ''b''), (VString ''c'', VString ''d'')] ChannelArgs_new)) = ''cdab'' \<and>
   m_HashKey (snd (ChannelArgs_init sha1
      [(VString ''a'', VString ''b''), (VString ''c'', VString ''d'')] ChannelArgs_new)) = sha1 ''cdab'' \<and>
   fst (ChannelArgs_init sha1 [(VString ''c'', VString ''d''), (VString ''a'', VString ''b'')]
          ChannelArgs_new) = True \<and>
   m_ConcatenatedArgs (snd (ChannelArgs_init sha1
      [(VString ''c'', VString ''d''), (VString ''a'', VString ''b'')] ChannelArgs_new)) = ''abcd'' \<and>
   m_HashKey (snd (ChannelArgs_init sha1
      [(VString ''c'', VString ''d''), (VString ''a'', VString ''b'')] ChannelArgs_new)) = sha1 ''abcd'' \<and>
   sortLambda (''c'', ''d'') (''a'', ''b'')"
  by (simp add: ChannelArgs_init_def ChannelArgs_new_def destroyArgs_def std_sort_def
        sortLambda_def Let_def)

text \<open>
  C9. An array with an entry whose value is null, whose key is not a string, or whose
  value is neither an integer nor a string is rejected: \<open>ChannelArgs::init\<close> returns
  false (the constructor then throws the invalid-argument exception), and the object is
  left as \<open>destroyArgs\<close> leaves it, which is the state of a newly constructed one: no
  argument array, no stored strings, no concatenation and no fingerprint.
\<close>

theorem ChannelArgs_init_rejects:
  assumes "\<exists>e \<in> set argsArray.
             isNull (snd e) \<or> \<not> isString (fst e) \<or> (\<not> isInteger (snd e) \<and> \<not> isString (snd e))"
  shows "ChannelArgs_init sha1 argsArray s0 = (False, ChannelArgs_new) \<and>
         m_HashKey (snd (ChannelArgs_init sha1 argsArray s0)) = [] \<and>
         snd (ChannelArgs_init sha1 argsArray s0) = destroyArgs s0"
proof -
  from assms have bad: "\<exists>e \<in> set argsArray. \<not> valid_entry e"
    by (auto simp: valid_entry_def)
  then have "argsArray \<noteq> []" by auto
  then have "ChannelArgs_init sha1 argsArray s0 = (False, ChannelArgs_new)"
    using init_loop_invalid [OF bad]
    by (simp add: ChannelArgs_init_def Let_def)
  then show ?thesis
    by (simp add: destroyArgs_new) (simp add: ChannelArgs_new_def)
qed

theorem ChannelArgs_init_rejects_witness:
  "ChannelArgs_init (\<lambda>s. s) [(VString ''a'', VNull)] ChannelArgs_new
     = (False, ChannelArgs_new) \<and>
   ChannelArgs_init (\<lambda>s. s) [(VInteger 3, VString ''a'')] ChannelArgs_new
     = (False, ChannelArgs_new) \<and>
   ChannelArgs_init (\<lambda>s. s) [(VString ''a'', VString ''b''), (VString ''c'', VBoolean True)]
       ChannelArgs_new
     = (False, ChannelArgs_new)"
  using ChannelArgs_init_rejects [of "[(VString ''a'', VNull)]" "\<lambda>s. s" ChannelArgs_new]
    ChannelArgs_init_rejects [of "[(VInteger 3, VString ''a'')]" "\<lambda>s. s" ChannelArgs_new]
    ChannelArgs_init_rejects
      [of "[(VString ''a'', VString ''b''), (VString ''c'', VBoolean True)]" "\<lambda>s. s"
          ChannelArgs_new]
  by simp

section \<open>Channel cache and channel handle: properties\<close>

lemma addChannel_distinct:
  "distinct (map fst m) \<Longrightarrow> distinct (map fst (snd (addChannel k p m)))"
  by (auto simp: addChannel_def map_of_eq_None_iff split: option.splits)

lemma from_lookup_present:
  assumes "create_channel rt strTarget channelArgs creds \<noteq> 0" "force_new \<or> pChannel = 0"
    "map_of (cache st) k = Some stored"
  shows "construct_from_lookup rt strTarget channelArgs creds force_new k pChannel st =
        (case ChannelData_init stored False k (this st)
                (destroyed st @ [create_channel rt strTarget channelArgs creds]) of
           (d, l) \<Rightarrow> Inr (st\<lparr>this := d, destroyed := l\<rparr>))"
  using assms by (auto simp: construct_from_lookup_def addChannel_def Let_def split: prod.splits)

lemma from_lookup_absent:
  assumes "create_channel rt strTarget channelArgs creds \<noteq> 0" "force_new \<or> pChannel = 0"
    "map_of (cache st) k = None"
  shows "construct_from_lookup rt strTarget channelArgs creds force_new k pChannel st =
        (case ChannelData_init (create_channel rt strTarget channelArgs creds) False k (this st)
                (destroyed st) of
           (d, l) \<Rightarrow> Inr (st\<lparr>this := d,
                           cache := cache st @ [(k, create_channel rt strTarget channelArgs creds)],
                           destroyed := l\<rparr>))"
  using assms by (auto simp: construct_from_lookup_def addChannel_def Let_def split: prod.splits)

lemma from_lookup_distinct:
  assumes "distinct (map fst (cache st))"
    and "construct_from_lookup rt strTarget channelArgs creds force_new k pChannel st = Inr st'"
  shows "distinct (map fst (cache st'))"
  using assms
  by (auto simp: construct_from_lookup_def addChannel_def Let_def map_of_eq_None_iff
      split: if_splits option.splits prod.splits)



lemma Channel_construct_steps:
  assumes "take_credentials args_array = Inr (creds, a1)"
    and "take_force_new a1 = (fn, a2)"
    and "ChannelArgs_init (SHA1 rt) a2 ChannelArgs_new = (True, ca)"
  shows "Channel_construct rt target args_array st =
           construct_from_lookup rt target ca creds fn
             (SHA1 rt (target @ m_ConcatenatedArgs ca)
              @ (case creds of None \<Rightarrow> [] | Some (c, h) \<Rightarrow> h))
             (getChannel (SHA1 rt (target @ m_ConcatenatedArgs ca)
                          @ (case creds of None \<Rightarrow> [] | Some (c, h) \<Rightarrow> h)) (cache st)) st"
  using assms by (simp add: Channel_construct_def Let_def)

lemma array_remove_absent: "map_of a k = None \<Longrightarrow> array_remove k a = a"
  by (induction a) (auto simp: array_remove_def split: if_splits)

lemma take_credentials_remaining:
  assumes "take_credentials args_array = Inr (creds, a1)"
  shows "a1 = array_remove (VString ''credentials'') args_array"
proof (cases "array_exists (VString ''credentials'') args_array")
  case True
  with assms show ?thesis
    by (auto simp: take_credentials_def Let_def split: variant.splits native_data.splits)
next
  case False
  then have "map_of args_array (VString ''credentials'') = None"
    by (simp add: array_exists_def)
  then have "array_remove (VString ''credentials'') args_array = args_array"
    by (rule array_remove_absent)
  with assms False show ?thesis
    by (simp add: take_credentials_def Let_def)
qed

lemma take_force_new_remaining:
  "snd (take_force_new a1) = array_remove (VString ''force_new'') a1"
proof (cases "array_exists (VString ''force_new'') a1")
  case True
  then show ?thesis by (simp add: take_force_new_def Let_def)
next
  case False
  then have "map_of a1 (VString ''force_new'') = None"
    by (simp add: array_exists_def)
  then have "array_remove (VString ''force_new'') a1 = a1"
    by (rule array_remove_absent)
  with False show ?thesis by (simp add: take_force_new_def Let_def)
qed

lemma ChannelData_destroy_idem:
  "ChannelData_destroy (fst (ChannelData_destroy d l)) (snd (ChannelData_destroy d l))
     = ChannelData_destroy d l"
  by (simp add: ChannelData_destroy_def)

text \<open>
  C2. The cache holds at most one channel per fingerprint. \<open>addChannel\<close> on a key that is
  present leaves the map as it is and returns the stored channel with \<open>false\<close>; on an
  absent key it inserts the new channel and returns it with \<open>true\<close>; either way the keys
  of the map stay distinct. The constructor, once it has created a channel (after a
  lookup that missed, or with \<open>force_new\<close>), destroys that channel and adopts the stored
  one when the key is present at insertion, whatever the earlier lookup saw, and
  inserts and adopts the new one when the key is absent; it keeps the keys distinct too.
\<close>

theorem addChannel_at_most_one:
  "(map_of m k = Some stored \<longrightarrow> addChannel k p m = ((False, stored), m)) \<and>
   (map_of m k = None \<longrightarrow> addChannel k p m = ((True, p), m @ [(k, p)])) \<and>
   (distinct (map fst m) \<longrightarrow> distinct (map fst (snd (addChannel k p m)))) \<and>
   (create_channel rt strTarget channelArgs creds \<noteq> 0 \<and> (force_new \<or> pChannel = 0) \<and>
    map_of (cache st) k = Some stored \<longrightarrow>
      construct_from_lookup rt strTarget channelArgs creds force_new k pChannel st =
        (case ChannelData_init stored False k (this st)
                (destroyed st @ [create_channel rt strTarget channelArgs creds]) of
           (d, l) \<Rightarrow> Inr (st\<lparr>this := d, destroyed := l\<rparr>))) \<and>
   (create_channel rt strTarget channelArgs creds \<noteq> 0 \<and> (force_new \<or> pChannel = 0) \<and>
    map_of (cache st) k = None \<longrightarrow>
      construct_from_lookup rt strTarget channelArgs creds force_new k pChannel st =
        (case ChannelData_init (create_channel rt strTarget channelArgs creds) False k (this st)
                (destroyed st) of
           (d, l) \<Rightarrow> Inr (st\<lparr>this := d,
                           cache := cache st @ [(k, create_channel rt strTarget channelArgs creds)],
                           destroyed := l\<rparr>))) \<and>
   (\<forall>st'. distinct (map fst (cache st)) \<and>
          construct_from_lookup rt strTarget channelArgs creds force_new k pChannel st = Inr st'
          \<longrightarrow> distinct (map fst (cache st')))"
proof (intro conjI impI allI)
  show "map_of m k = Some stored \<Longrightarrow> addChannel k p m = ((False, stored), m)"
    by (simp add: addChannel_def)
  show "map_of m k = None \<Longrightarrow> addChannel k p m = ((True, p), m @ [(k, p)])"
    by (simp add: addChannel_def)
  show "distinct (map fst m) \<Longrightarrow> distinct (map fst (snd (addChannel k p m)))"
    by (rule addChannel_distinct)
  show "distinct (map fst (cache st)) \<and>
          construct_from_lookup rt strTarget channelArgs creds force_new k pChannel st = Inr st'
          \<Longrightarrow> distinct (map fst (cache st'))" for st'
    using from_lookup_distinct by blast
qed (simp_all add: from_lookup_present from_lookup_absent)

theorem addChannel_at_most_one_witness:
  "addChannel ''k'' 2 [(''k'', 1)] = ((False, 1), [(''k'', 1)]) \<and>
   addChannel ''k'' 2 [] = ((True, 2), [(''k'', 2)]) \<and>
   distinct (map fst (snd (addChannel ''k'' 2 [(''k'', 1)]))) \<and>
   construct_from_lookup sample_runtime ''t'' ChannelArgs_new None False ''k'' 0
     \<lparr>this = \<lparr>m_pChannel = 0, m_Owned = False, m_HashKey_data = []\<rparr>,
      cache = [(''k'', 1)], destroyed = []\<rparr>
   = Inr \<lparr>this = \<lparr>m_pChannel = 1, m_Owned = False, m_HashKey_data = ''k''\<rparr>,
          cache = [(''k'', 1)], destroyed = [2]\<rparr> \<and>
   construct_from_lookup sample_runtime ''t'' ChannelArgs_new None False ''k'' 0
     \<lparr>this = \<lparr>m_pChannel = 0, m_Owned = False, m_HashKey_data = []\<rparr>,
      cache = [], destroyed = []\<rparr>
   = Inr \<lparr>this = \<lparr>m_pChannel = 2, m_Owned = False, m_HashKey_data = ''k''\<rparr>,
          cache = [(''k'', 2)], destroyed = []\<rparr>"
  using addChannel_at_most_one
          [of "[(''k'', 1)]" "''k''" 1 2 sample_runtime "''t''" ChannelArgs_new None False 0
              "\<lparr>this = \<lparr>m_pChannel = 0, m_Owned = False, m_HashKey_data = []\<rparr>,
                cache = [(''k'', 1)], destroyed = []\<rparr>"]
        addChannel_at_most_one
          [of "[]" "''k''" 1 2 sample_runtime "''t''" ChannelArgs_new None False 0
              "\<lparr>this = \<lparr>m_pChannel = 0, m_Owned = False, m_HashKey_data = []\<rparr>,
                cache = [], destroyed = []\<rparr>"]
  by (simp add: sample_runtime_def create_channel_def ChannelData_init_def
        ChannelData_destroy_def)

text \<open>
  C6, as stated: closing is idempotent, closing a handle that is already closed is safe.
  It is not: the method checks the channel first and throws when it is null, so the
  second of two calls of \<open>close\<close> on an open handle ends with the exception
  \<open>Channel already closed.\<close> where the first one returned normally.
\<close>

theorem close_twice_throws:
  "Channel_close \<lparr>this = \<lparr>m_pChannel = 1, m_Owned = False, m_HashKey_data = ''k''\<rparr>,
                  cache = [(''k'', 1)], destroyed = []\<rparr>
     = Inr \<lparr>this = \<lparr>m_pChannel = 0, m_Owned = False, m_HashKey_data = []\<rparr>,
            cache = [(''k'', 1)], destroyed = []\<rparr> \<and>
   Channel_close \<lparr>this = \<lparr>m_pChannel = 0, m_Owned = False, m_HashKey_data = []\<rparr>,
                  cache = [(''k'', 1)], destroyed = []\<rparr>
     = Inl (BadMethodCallException ''Channel already closed.'')"
  by (simp add: Channel_close_def ChannelData_init_def ChannelData_destroy_def)

text \<open>
  C6, amended. \<open>close\<close> on a closed handle (null channel) throws
  \<open>Channel already closed.\<close>, as \<open>getTarget\<close>, \<open>getConnectivityState\<close> and
  \<open>watchConnectivityState\<close> do, and changes nothing. On an open handle that is not owned
  it sets the channel to null, clears the key and destroys nothing; on an owned one it
  destroys the channel as well. After a \<open>close\<close> that returned, the handle is closed.
  What is idempotent is \<open>ChannelData::destroy\<close>, which a second call leaves without
  effect.
\<close>

theorem close_reports_closed:
  "(m_pChannel (this st) = 0 \<longrightarrow>
      Channel_close st = Inl (BadMethodCallException ''Channel already closed.'') \<and>
      Channel_getTarget rt st = Inl (BadMethodCallException ''Channel already closed.'') \<and>
      Channel_getConnectivityState rt try_to_connect st
        = Inl (BadMethodCallException ''Channel already closed.'') \<and>
      Channel_watchConnectivityState st = Inl (BadMethodCallException ''Channel already closed.'')) \<and>
   (m_pChannel (this st) \<noteq> 0 \<and> \<not> m_Owned (this st) \<longrightarrow>
      Channel_close st
        = Inr (st\<lparr>this := (this st)\<lparr>m_pChannel := 0, m_Owned := False, m_HashKey_data := []\<rparr>\<rparr>)) \<and>
   (m_pChannel (this st) \<noteq> 0 \<and> m_Owned (this st) \<longrightarrow>
      Channel_close st
        = Inr (st\<lparr>this := (this st)\<lparr>m_pChannel := 0, m_Owned := False, m_HashKey_data := []\<rparr>,
                  destroyed := destroyed st @ [m_pChannel (this st)]\<rparr>)) \<and>
   (\<forall>st'. Channel_close st = Inr st' \<longrightarrow> m_pChannel (this st') = 0) \<and>
   ChannelData_destroy (fst (ChannelData_destroy d l)) (snd (ChannelData_destroy d l))
     = ChannelData_destroy d l"
proof (intro conjI impI allI)
  show "ChannelData_destroy (fst (ChannelData_destroy d l)) (snd (ChannelData_destroy d l))
     = ChannelData_destroy d l"
    by (rule ChannelData_destroy_idem)
qed (auto simp: Channel_close_def Channel_getTarget_def Channel_getConnectivityState_def
       Channel_watchConnectivityState_def ChannelData_init_def ChannelData_destroy_def
       split: if_splits)

theorem close_reports_closed_witness:
  "Channel_close \<lparr>this = \<lparr>m_pChannel = 0, m_Owned = False, m_HashKey_data = []\<rparr>,
                  cache = [(''k'', 1)], destroyed = []\<rparr>
     = Inl (BadMethodCallException ''Channel already closed.'') \<and>
   Channel_getTarget sample_runtime
       \<lparr>this = \<lparr>m_pChannel = 0, m_Owned = False, m_HashKey_data = []\<rparr>,
        cache = [(''k'', 1)], destroyed = []\<rparr>
     = Inl (BadMethodCallException ''Channel already closed.'') \<and>
   Channel_close \<lparr>this = \<lparr>m_pChannel = 1, m_Owned = False, m_HashKey_data = ''k''\<rparr>,
                  cache = [(''k'', 1)], destroyed = []\<rparr>
     = Inr \<lparr>this = \<lparr>m_pChannel = 0, m_Owned = False, m_HashKey_data = []\<rparr>,
            cache = [(''k'', 1)], destroyed = []\<rparr> \<and>
   Channel_close \<lparr>this = \<lparr>m_pChannel = 4, m_Owned = True, m_HashKey_data = ''k''\<rparr>,
                  cache = [(''k'', 1)], destroyed = []\<rparr>
     = Inr \<lparr>this = \<lparr>m_pChannel = 0, m_Owned = False, m_HashKey_data = []\<rparr>,
            cache = [(''k'', 1)], destroyed = [4]\<rparr>"
  using close_reports_closed [of "\<lparr>this = \<lparr>m_pChannel = 0, m_Owned = False, m_HashKey_data = []\<rparr>,
                  cache = [(''k'', 1)], destroyed = []\<rparr>" sample_runtime False]
    close_reports_closed [of "\<lparr>this = \<lparr>m_pChannel = 1, m_Owned = False, m_HashKey_data = ''k''\<rparr>,
                  cache = [(''k'', 1)], destroyed = []\<rparr>" sample_runtime False]
    close_reports_closed [of "\<lparr>this = \<lparr>m_pChannel = 4, m_Owned = True, m_HashKey_data = ''k''\<rparr>,
                  cache = [(''k'', 1)], destroyed = []\<rparr>" sample_runtime False]
  by simp

text \<open>
  C7, as stated: with \<open>force_new\<close> and a cached entry for the same fingerprint, the new
  resource is not inserted and the caller becomes responsible for its lifetime. The
  first part holds, the second does not: with the channel at address 1 cached and the
  engine creating the one at address 2, the constructor destroys 2 itself and the
  handle it leaves refers to 1.
\<close>

theorem force_new_keeps_new_counterexample:
  "Channel_construct sample_runtime ''t'' [(VString ''force_new'', VBoolean True)]
     \<lparr>this = \<lparr>m_pChannel = 0, m_Owned = False, m_HashKey_data = []\<rparr>,
      cache = [(''t'', 1)], destroyed = []\<rparr>
   = Inr \<lparr>this = \<lparr>m_pChannel = 1, m_Owned = False, m_HashKey_data = ''t''\<rparr>,
          cache = [(''t'', 1)], destroyed = [2]\<rparr>"
  by (simp add: Channel_construct_def take_credentials_def take_force_new_def array_exists_def
        array_get_def array_remove_def ChannelArgs_init_def ChannelArgs_new_def destroyArgs_def
        std_sort_def Let_def sample_runtime_def getChannel_def construct_from_lookup_def
        create_channel_def addChannel_def ChannelData_init_def ChannelData_destroy_def)

text \<open>
  C7, amended. With \<open>force_new\<close> set and an entry cached under the fingerprint of the
  request, the constructor creates a new channel, does not insert it (the cache is
  unchanged), destroys it at once and initialises the handle as a view, not owned, of
  the cached channel. Besides the new channel only the channel the receiver owned
  before, if any, is destroyed. This is stated for a request that leaves at most
  sixteen entries to be sorted once \<open>credentials\<close> and \<open>force_new\<close> are taken out.
\<close>

theorem force_new_discards_new:
  assumes "take_credentials args_array = Inr (creds, a1)"
    and "take_force_new a1 = (True, a2)"
    and "ChannelArgs_init (SHA1 rt) a2 ChannelArgs_new = (True, ca)"
    and "map_of (cache st)
           (SHA1 rt (target @ m_ConcatenatedArgs ca) @ (case creds of None \<Rightarrow> [] | Some (c, h) \<Rightarrow> h))
         = Some stored"
    and "create_channel rt target ca creds \<noteq> 0"
    and "length a2 \<le> 16"
  shows "\<exists>st'. Channel_construct rt target args_array st = Inr st' \<and>
           cache st' = cache st \<and>
           this st' = \<lparr>m_pChannel = stored, m_Owned = False,
                       m_HashKey_data = SHA1 rt (target @ m_ConcatenatedArgs ca)
                          @ (case creds of None \<Rightarrow> [] | Some (c, h) \<Rightarrow> h)\<rparr> \<and>
           destroyed st' = snd (ChannelData_destroy (this st)
                                  (destroyed st @ [create_channel rt target ca creds]))"
  using from_lookup_present [OF assms(5) disjI1 [OF TrueI] assms(4)]
  by (simp add: Channel_construct_steps [OF assms(1,2,3)] ChannelData_init_def
        split: prod.splits)

theorem force_new_discards_new_witness:
  "\<exists>st'. Channel_construct sample_runtime ''t'' [(VString ''force_new'', VBoolean True)]
            \<lparr>this = \<lparr>m_pChannel = 0, m_Owned = False, m_HashKey_data = []\<rparr>,
             cache = [(''t'', 1)], destroyed = []\<rparr> = Inr st' \<and>
         cache st' = [(''t'', 1)] \<and>
         this st' = \<lparr>m_pChannel = 1, m_Owned = False, m_HashKey_data = ''t''\<rparr> \<and>
         destroyed st' = [2]"
proof -
  have 1: "take_credentials [(VString ''force_new'', VBoolean True)]
             = Inr (None, [(VString ''force_new'', VBoolean True)])"
    by (simp add: take_credentials_def array_exists_def)
  have 2: "take_force_new [(VString ''force_new'', VBoolean True)] = (True, [])"
    by (simp add: take_force_new_def array_exists_def array_get_def array_remove_def)
  have 3: "ChannelArgs_init (SHA1 sample_runtime) [] ChannelArgs_new = (True, ChannelArgs_new)"
    by (simp add: ChannelArgs_init_def ChannelArgs_new_def destroyArgs_def std_sort_def
          sample_runtime_def)
  have 4: "map_of (cache \<lparr>this = \<lparr>m_pChannel = 0, m_Owned = False, m_HashKey_data = []\<rparr>,
             cache = [(''t'', 1)], destroyed = []\<rparr>)
             (SHA1 sample_runtime (''t'' @ m_ConcatenatedArgs ChannelArgs_new)
                @ (case None :: (nat \<times> string) option of None \<Rightarrow> [] | Some (c, h) \<Rightarrow> h)) = Some 1"
    by (simp add: sample_runtime_def ChannelArgs_new_def)
  have 5: "create_channel sample_runtime ''t'' ChannelArgs_new None \<noteq> 0"
    by (simp add: create_channel_def sample_runtime_def)
  have 6: "length ([] :: array) \<le> 16"
    by simp
  show ?thesis
    using force_new_discards_new [OF 1 2 3 4 5 6]
    by (simp add: sample_runtime_def ChannelArgs_new_def create_channel_def
          ChannelData_destroy_def)
qed



section \<open>Plugin metadata: properties\<close>

lemma getInfo_snd: "snd (getInfo c m) = m(c := None)"
  by (auto simp: getInfo_def split: option.splits)

lemma set_value_registry: "m_MetaDataMap (snd (set_value a info params w)) = m_MetaDataMap w"
  by (simp add: set_value_def split: option.splits)

lemma dispatch_consumes:
  "m_MetaDataMap (snd (plugin_get_metadata rt ptr context cb user_data w))
     = (m_MetaDataMap w)(pCallCredentials ptr := None)"
proof -
  obtain wp where g: "getInfo (pCallCredentials ptr) (m_MetaDataMap w)
                        = (wp, (m_MetaDataMap w)(pCallCredentials ptr := None))"
    using getInfo_snd [of "pCallCredentials ptr" "m_MetaDataMap w"]
    by (cases "getInfo (pCallCredentials ptr) (m_MetaDataMap w)") simp
  show ?thesis
  proof (cases "weak_lock (slots w) wp")
    case None
    with g show ?thesis by (simp add: plugin_get_metadata_def Let_def)
  next
    case (Some locked)
    obtain a info where "locked = (a, info)" by (cases locked)
    with Some g show ?thesis
      by (simp add: plugin_get_metadata_def Let_def set_value_registry split: prod.splits)
  qed
qed

text \<open>
  C8. \<open>getInfo\<close> consumes the registration: it returns the registered weak reference
  (the empty one when there is no registration) and removes the entry, so a second call
  with no \<open>setInfo\<close> in between returns the empty weak reference; after \<open>setInfo\<close> it
  returns what was registered. The dispatcher consumes the registration of its
  credentials in the same way, whatever it does next.
\<close>

theorem getInfo_consumes:
  "(m c = Some wp \<longrightarrow> fst (getInfo c m) = wp) \<and>
   (m c = None \<longrightarrow> fst (getInfo c m) = None) \<and>
   fst (getInfo c (snd (getInfo c m))) = None \<and>
   snd (getInfo c m) = m(c := None) \<and>
   fst (getInfo c (setInfo c p m)) = p \<and>
   fst (getInfo (pCallCredentials ptr)
          (m_MetaDataMap (snd (plugin_get_metadata rt ptr context cb user_data w)))) = None"
proof (intro conjI impI)
  show "m c = Some wp \<Longrightarrow> fst (getInfo c m) = wp"
    by (simp add: getInfo_def)
  show "m c = None \<Longrightarrow> fst (getInfo c m) = None"
    by (simp add: getInfo_def)
  show "snd (getInfo c m) = m(c := None)"
    by (rule getInfo_snd)
  then show "fst (getInfo c (snd (getInfo c m))) = None"
    by (simp add: getInfo_def)
  show "fst (getInfo c (setInfo c p m)) = p"
    by (simp add: getInfo_def setInfo_def split: option.splits)
  show "fst (getInfo (pCallCredentials ptr)
          (m_MetaDataMap (snd (plugin_get_metadata rt ptr context cb user_data w)))) = None"
    by (simp add: dispatch_consumes getInfo_def)
qed

theorem getInfo_consumes_witness:
  "fst (getInfo 5 [5 \<mapsto> Some 7]) = Some 7 \<and>
   fst (getInfo 5 (snd (getInfo 5 [5 \<mapsto> Some 7]))) = None \<and>
   snd (getInfo 5 [5 \<mapsto> Some 7]) = [5 \<mapsto> Some 7](5 := None) \<and>
   fst (getInfo 6 [5 \<mapsto> Some 7]) = None"
proof -
  have h: "[5 \<mapsto> Some 7] (5::nat) = Some (Some (7::nat))" by simp
  have h': "[5 \<mapsto> Some 7] (6::nat) = (None :: nat option option)" by simp
  from getInfo_consumes [of "[5 \<mapsto> Some 7]" 5 "Some 7" None]
       getInfo_consumes [of "[5 \<mapsto> Some 7]" 6 "Some 7" None] h h'
  show ?thesis by blast
qed

text \<open>
  C3. When the weak reference that \<open>getInfo\<close> yields cannot be locked (no registration,
  an empty reference, or a slot whose strong references are gone), the dispatcher
  returns normally. It calls neither the user callback nor the completion callback,
  fulfils no promise, and throws nothing; the only effect is that the registration has
  been consumed.
\<close>

theorem abandoned_is_silent:
  assumes "weak_lock (slots w) (fst (getInfo (pCallCredentials ptr) (m_MetaDataMap w))) = None"
  shows "plugin_get_metadata rt ptr context cb user_data w =
           (None, w\<lparr>m_MetaDataMap := (m_MetaDataMap w)(pCallCredentials ptr := None)\<rparr>)"
proof -
  have "snd (getInfo (pCallCredentials ptr) (m_MetaDataMap w)) = (m_MetaDataMap w)(pCallCredentials ptr := None)"
    by (auto simp: getInfo_def split: option.splits)
  then obtain wp where g: "getInfo (pCallCredentials ptr) (m_MetaDataMap w) = (wp, (m_MetaDataMap w)(pCallCredentials ptr := None))"
    by (cases "getInfo (pCallCredentials ptr) (m_MetaDataMap w)") simp
  with assms have "weak_lock (slots w) wp = None" by simp
  with g show ?thesis
    by (simp add: plugin_get_metadata_def Let_def)
qed

theorem abandoned_is_silent_witness:
  "plugin_get_metadata sample_plugin_runtime \<lparr>callback = VString ''good'', pCallCredentials = 5\<rparr>
      \<lparr>service_url = Some ''u'', method_name = Some ''m'', channel_auth_context = 3\<rparr> 10 11
      \<lparr>m_MetaDataMap = [5 \<mapsto> Some 7], slots = Map.empty, trace = []\<rparr>
   = (None, \<lparr>m_MetaDataMap = Map.empty, slots = Map.empty, trace = []\<rparr>)"
proof -
  have h: "weak_lock (slots \<lparr>m_MetaDataMap = [5 \<mapsto> Some 7], slots = Map.empty, trace = []\<rparr>)
             (fst (getInfo (pCallCredentials \<lparr>callback = VString ''good'', pCallCredentials = 5\<rparr>)
                (m_MetaDataMap \<lparr>m_MetaDataMap = [5 \<mapsto> Some (7::nat)], slots = Map.empty, trace = []\<rparr>))) = None"
    by (simp add: weak_lock_def getInfo_def)
  show ?thesis
    using abandoned_is_silent [OF h, of sample_plugin_runtime "\<lparr>service_url = Some ''u'', method_name = Some ''m'', channel_auth_context = 3\<rparr>" 10 11]
    by simp
qed

text \<open>
  C4. When the slot resolves and its owning thread is not the running one, the
  dispatcher makes no call at all, neither of the user callback nor of the completion
  callback. It hands the request to the promise of the slot: a promise that is still
  empty, as that of a slot registered for one request is, then holds the unresolved
  record (flag and result both false, so the request still has to be executed on the
  owning thread) with the plugin state, the service URL and method name (empty where
  the context has none), the auth context, the completion callback and the user data.
\<close>

theorem different_thread_publishes_unresolved:
  assumes "weak_lock (slots w) (fst (getInfo (pCallCredentials ptr) (m_MetaDataMap w))) = Some (a, info)"
    and "threadId info \<noteq> this_thread_get_id rt"
  shows "trace (snd (plugin_get_metadata rt ptr context cb user_data w)) = trace w \<and>
         (metadataPromise info = None \<longrightarrow>
            plugin_get_metadata rt ptr context cb user_data w =
              (None, w\<lparr>m_MetaDataMap := (m_MetaDataMap w)(pCallCredentials ptr := None),
                       slots := (slots w)(a \<mapsto> info\<lparr>metadataPromise := Some
                          \<lparr>p_ptr = ptr,
                           p_contextServiceUrl = (case service_url context of Some u \<Rightarrow> u | None \<Rightarrow> []),
                           p_contextMethodName = (case method_name context of Some n \<Rightarrow> n | None \<Rightarrow> []),
                           p_context = channel_auth_context context,
                           p_cb = cb, p_user_data = user_data,
                           p_completed = False, p_result = False\<rparr>\<rparr>)\<rparr>))"
proof -
  have m': "snd (getInfo (pCallCredentials ptr) (m_MetaDataMap w)) = (m_MetaDataMap w)(pCallCredentials ptr := None)"
    by (auto simp: getInfo_def split: option.splits)
  obtain wp where g: "getInfo (pCallCredentials ptr) (m_MetaDataMap w) = (wp, (m_MetaDataMap w)(pCallCredentials ptr := None))"
    using m' by (cases "getInfo (pCallCredentials ptr) (m_MetaDataMap w)") simp
  with assms(1) have l: "weak_lock (slots w) wp = Some (a, info)" by simp
  show ?thesis
    using assms(2) g l
    by (cases "metadataPromise info")
       (simp_all add: plugin_get_metadata_def Let_def set_value_def unresolved_params_def)
qed

theorem different_thread_publishes_unresolved_witness:
  "plugin_get_metadata sample_plugin_runtime \<lparr>callback = VString ''good'', pCallCredentials = 5\<rparr>
      \<lparr>service_url = Some ''u'', method_name = None, channel_auth_context = 3\<rparr> 10 11
      \<lparr>m_MetaDataMap = [5 \<mapsto> Some 7],
       slots = [7 \<mapsto> \<lparr>metadataPromise = None, threadId = 2\<rparr>], trace = []\<rparr>
   = (None,
      \<lparr>m_MetaDataMap = [5 \<mapsto> Some 7](5 := None),
       slots = [7 \<mapsto> \<lparr>metadataPromise = None, threadId = 2\<rparr>]
               (7 \<mapsto> \<lparr>metadataPromise = Some
                    \<lparr>p_ptr = \<lparr>callback = VString ''good'', pCallCredentials = 5\<rparr>,
                     p_contextServiceUrl = ''u'', p_contextMethodName = [],
                     p_context = 3, p_cb = 10, p_user_data = 11,
                     p_completed = False, p_result = False\<rparr>,
                   threadId = 2\<rparr>),
       trace = []\<rparr>)"
proof -
  have l: "weak_lock (slots \<lparr>m_MetaDataMap = [5 \<mapsto> Some 7],
                 slots = [7 \<mapsto> \<lparr>metadataPromise = None, threadId = 2\<rparr>], trace = []\<rparr>)
             (fst (getInfo (pCallCredentials \<lparr>callback = VString ''good'', pCallCredentials = 5\<rparr>)
                (m_MetaDataMap \<lparr>m_MetaDataMap = [5 \<mapsto> Some 7],
                 slots = [7 \<mapsto> \<lparr>metadataPromise = None, threadId = 2\<rparr>], trace = []\<rparr>)))
           = Some (7, \<lparr>metadataPromise = None, threadId = 2\<rparr>)"
    by (simp add: weak_lock_def getInfo_def)
  have t: "threadId \<lparr>metadataPromise = None, threadId = 2\<rparr> \<noteq> this_thread_get_id sample_plugin_runtime"
    by (simp add: sample_plugin_runtime_def)
  show ?thesis
    using different_thread_publishes_unresolved [OF l t,
            of "\<lparr>service_url = Some ''u'', method_name = None, channel_auth_context = 3\<rparr>" 10 11]
    by simp
qed

text \<open>
  C5. \<open>plugin_do_get_metadata\<close> calls the user callback once and the completion
  callback once. A null or non-array return value gives no metadata and status unknown;
  an array that fails validation gives no metadata and status invalid-argument; an
  array that passes gives the validated metadata, its size and status ok. The function
  returns true exactly when the status handed to the completion callback is ok.
\<close>

theorem plugin_do_get_metadata_status:
  "(let retVal = vm_call_user_func rt (callback ptr) (callback_params serviceURL methodName);
        tr1 = tr @ [UserCallback (callback ptr) (callback_params serviceURL methodName)];
        out = plugin_do_get_metadata rt ptr serviceURL methodName pContext cb user_data tr
    in (isNull retVal \<or> \<not> isArray retVal \<longrightarrow>
          out = (False, tr1 @ [CompletionCallback cb user_data None 0 GRPC_STATUS_UNKNOWN])) \<and>
       (isArray retVal \<and> MetadataArray_init rt (toArray retVal) = None \<longrightarrow>
          out = (False, tr1 @ [CompletionCallback cb user_data None 0
                                 GRPC_STATUS_INVALID_ARGUMENT])) \<and>
       (\<forall>metadata. isArray retVal \<and> MetadataArray_init rt (toArray retVal) = Some metadata \<longrightarrow>
          out = (True, tr1 @ [CompletionCallback cb user_data (Some metadata)
                                (length metadata) GRPC_STATUS_OK])) \<and>
       (fst out \<longleftrightarrow> completion_status (last (snd out)) = Some GRPC_STATUS_OK))"
proof -
  have n: "isArray v \<Longrightarrow> \<not> isNull v" for v by (cases v) simp_all
  show ?thesis
    by (auto simp: plugin_do_get_metadata_def Let_def n split: option.splits)
qed

theorem plugin_do_get_metadata_status_witness:
  "plugin_do_get_metadata sample_plugin_runtime \<lparr>callback = VString ''null'', pCallCredentials = 5\<rparr>
      ''u'' ''m'' 3 10 11 []
     = (False, [UserCallback (VString ''null'') (callback_params ''u'' ''m''),
                CompletionCallback 10 11 None 0 GRPC_STATUS_UNKNOWN]) \<and>
   plugin_do_get_metadata sample_plugin_runtime \<lparr>callback = VString ''bad'', pCallCredentials = 5\<rparr>
      ''u'' ''m'' 3 10 11 []
     = (False, [UserCallback (VString ''bad'') (callback_params ''u'' ''m''),
                CompletionCallback 10 11 None 0 GRPC_STATUS_INVALID_ARGUMENT]) \<and>
   plugin_do_get_metadata sample_plugin_runtime \<lparr>callback = VString ''good'', pCallCredentials = 5\<rparr>
      ''u'' ''m'' 3 10 11 []
     = (True, [UserCallback (VString ''good'') (callback_params ''u'' ''m''),
               CompletionCallback 10 11 (Some [(''k'', ''v'')]) 1 GRPC_STATUS_OK])"
  using plugin_do_get_metadata_status [of sample_plugin_runtime "\<lparr>callback = VString ''null'', pCallCredentials = 5\<rparr>" "''u''" "''m''" "[]" 3 10 11]
    plugin_do_get_metadata_status [of sample_plugin_runtime "\<lparr>callback = VString ''bad'', pCallCredentials = 5\<rparr>" "''u''" "''m''" "[]" 3 10 11]
    plugin_do_get_metadata_status [of sample_plugin_runtime "\<lparr>callback = VString ''good'', pCallCredentials = 5\<rparr>" "''u''" "''m''" "[]" 3 10 11]
  by (simp add: sample_plugin_runtime_def Let_def)

end
